theory Spec2Isabelle
  imports
    Main
    "HOL-Library.Char_ord"
    "HOL-Library.List_Lexorder"
    "HOL-Library.Product_Lexorder"
    "HOL-Library.AList"
begin

section \<open>Go strings\<close>

text \<open>
  A Go string is a sequence of bytes, modelled as \<open>string\<close>; comparison is bytewise.
  The functions of package \<^verbatim>\<open>strings\<close> that the program calls are modelled on bytes:
  white space is the ASCII white space of \<^verbatim>\<open>unicode.IsSpace\<close> and case folding is the
  folding of ASCII letters (multi-byte white space and non-ASCII case pairs are left
  as they are).
\<close>

definition isSpace :: "char \<Rightarrow> bool" where
  "isSpace c = (c \<in> set [CHR 0x09, CHR 0x0A, CHR 0x0B, CHR 0x0C, CHR 0x0D, CHR 0x20])"

definition TrimSpace :: "string \<Rightarrow> string" where
  "TrimSpace s = rev (dropWhile isSpace (rev (dropWhile isSpace s)))"

definition TrimRight :: "string \<Rightarrow> string \<Rightarrow> string" where
  "TrimRight s cutset = rev (dropWhile (\<lambda>c. c \<in> set cutset) (rev s))"

definition HasPrefix :: "string \<Rightarrow> string \<Rightarrow> bool" where
  "HasPrefix s p = (take (length p) s = p)"

definition HasSuffix :: "string \<Rightarrow> string \<Rightarrow> bool" where
  "HasSuffix s p = (length p \<le> length s \<and> drop (length s - length p) s = p)"

definition TrimPrefix :: "string \<Rightarrow> string \<Rightarrow> string" where
  "TrimPrefix s p = (if HasPrefix s p then drop (length p) s else s)"

text \<open>\<^verbatim>\<open>strings.Cut\<close> at a one-byte separator: the text before and after its first occurrence.\<close>

definition Cut :: "string \<Rightarrow> char \<Rightarrow> string \<times> string" where
  "Cut s sep = (takeWhile (\<lambda>c. c \<noteq> sep) s, drop 1 (dropWhile (\<lambda>c. c \<noteq> sep) s))"

text \<open>\<^verbatim>\<open>strings.LastIndex\<close> of a one-byte separator, \<open>None\<close> for \<open>-1\<close>.\<close>

definition LastIndex :: "string \<Rightarrow> char \<Rightarrow> nat option" where
  "LastIndex s sep =
     (if sep \<in> set s then Some (length s - 1 - length (takeWhile (\<lambda>c. c \<noteq> sep) (rev s)))
      else None)"

fun Index :: "string \<Rightarrow> string \<Rightarrow> nat option" where
  "Index [] sub = (if sub = [] then Some 0 else None)"
| "Index (c # s) sub =
     (if HasPrefix (c # s) sub then Some 0 else map_option Suc (Index s sub))"

definition isUpper :: "char \<Rightarrow> bool" where
  "isUpper c = (CHR ''A'' \<le> c \<and> c \<le> CHR ''Z'')"

definition isLower :: "char \<Rightarrow> bool" where
  "isLower c = (CHR ''a'' \<le> c \<and> c \<le> CHR ''z'')"

definition isDigit :: "char \<Rightarrow> bool" where
  "isDigit c = (CHR ''0'' \<le> c \<and> c \<le> CHR ''9'')"

definition toLower :: "char \<Rightarrow> char" where
  "toLower c = (if isUpper c then char_of (of_char c + (32::nat)) else c)"

definition ToLower :: "string \<Rightarrow> string" where
  "ToLower s = map toLower s"

definition EqualFold :: "string \<Rightarrow> string \<Rightarrow> bool" where
  "EqualFold s t = (map toLower s = map toLower t)"

section \<open>Package net/url of the Go library\<close>

text \<open>
  The program parses and prints URLs with \<^verbatim>\<open>url.Parse\<close>, \<^verbatim>\<open>URL.String\<close>,
  \<^verbatim>\<open>URL.Hostname\<close> and \<^verbatim>\<open>URL.ResolveReference\<close> of the Go standard library. They are
  modelled here function by function after the library (Go 1.19 and later); an error
  return is \<open>None\<close>.
\<close>

datatype encoding =
  encodePath | encodePathSegment | encodeHost | encodeZone
  | encodeUserPassword | encodeQueryComponent | encodeFragment

record url_URL =
  Scheme :: string
  Opaque :: string
  User :: "(string \<times> string option) option"
  Host :: string
  Path :: string
  RawPath :: string
  OmitHost :: bool
  ForceQuery :: bool
  RawQuery :: string
  Fragment :: string
  RawFragment :: string

definition empty_URL :: url_URL where
  "empty_URL =
     \<lparr>Scheme = [], Opaque = [], User = None, Host = [], Path = [], RawPath = [],
      OmitHost = False, ForceQuery = False, RawQuery = [], Fragment = [], RawFragment = []\<rparr>"

definition ishex :: "char \<Rightarrow> bool" where
  "ishex c = (isDigit c \<or> (CHR ''a'' \<le> c \<and> c \<le> CHR ''f'') \<or> (CHR ''A'' \<le> c \<and> c \<le> CHR ''F''))"

definition unhex :: "char \<Rightarrow> nat" where
  "unhex c =
     (if isDigit c then of_char c - of_char CHR ''0''
      else if CHR ''a'' \<le> c \<and> c \<le> CHR ''f'' then of_char c - of_char CHR ''a'' + 10
      else if CHR ''A'' \<le> c \<and> c \<le> CHR ''F'' then of_char c - of_char CHR ''A'' + 10
      else 0)"

definition shouldEscape :: "char \<Rightarrow> encoding \<Rightarrow> bool" where
  "shouldEscape c mode =
     (if isLower c \<or> isUpper c \<or> isDigit c then False
      else if (mode = encodeHost \<or> mode = encodeZone) \<and>
              c \<in> set [CHR ''!'', CHR ''$'', CHR ''&'', CHR 0x27, CHR ''('', CHR '')'', CHR ''*'',
                       CHR ''+'', CHR '','', CHR '';'', CHR ''='', CHR '':'', CHR ''['', CHR '']'',
                       CHR ''<'', CHR ''>'', CHR 0x22]
      then False
      else if c \<in> set [CHR ''-'', CHR ''_'', CHR ''.'', CHR ''~''] then False
      else if c \<in> set [CHR ''$'', CHR ''&'', CHR ''+'', CHR '','', CHR ''/'', CHR '':'', CHR '';'',
                        CHR ''='', CHR ''?'', CHR ''@'']
      then (case mode of
              encodePath \<Rightarrow> c = CHR ''?''
            | encodePathSegment \<Rightarrow> c \<in> set [CHR ''/'', CHR '';'', CHR '','', CHR ''?'']
            | encodeUserPassword \<Rightarrow> c \<in> set [CHR ''@'', CHR ''/'', CHR ''?'', CHR '':'']
            | encodeQueryComponent \<Rightarrow> True
            | encodeFragment \<Rightarrow> False
            | _ \<Rightarrow> True)
      else if mode = encodeFragment \<and> c \<in> set [CHR ''!'', CHR ''('', CHR '')'', CHR ''*''] then False
      else True)"

text \<open>The first pass of \<^verbatim>\<open>unescape\<close>: every \<^verbatim>\<open>%\<close> starts a well-formed escape that the mode allows.\<close>

fun unescape_ok :: "encoding \<Rightarrow> string \<Rightarrow> bool" where
  "unescape_ok mode [] = True"
| "unescape_ok mode [c] =
     (c \<noteq> CHR ''%'' \<and>
      \<not> ((mode = encodeHost \<or> mode = encodeZone) \<and> of_char c < (0x80::nat) \<and> shouldEscape c encodeHost))"
| "unescape_ok mode [c, a] =
     (c \<noteq> CHR ''%'' \<and>
      \<not> ((mode = encodeHost \<or> mode = encodeZone) \<and> of_char c < (0x80::nat) \<and> shouldEscape c encodeHost)
      \<and> unescape_ok mode [a])"
| "unescape_ok mode (c # a # b # s) =
     (if c = CHR ''%'' then
        ishex a \<and> ishex b
        \<and> \<not> (mode = encodeHost \<and> unhex a < 8 \<and> [a, b] \<noteq> ''25'')
        \<and> \<not> (mode = encodeZone \<and> [a, b] \<noteq> ''25''
               \<and> char_of (unhex a * 16 + unhex b) \<noteq> CHR 0x20
               \<and> shouldEscape (char_of (unhex a * 16 + unhex b)) encodeHost)
        \<and> unescape_ok mode s
      else
        \<not> ((mode = encodeHost \<or> mode = encodeZone) \<and> of_char c < (0x80::nat) \<and> shouldEscape c encodeHost)
        \<and> unescape_ok mode (a # b # s))"

text \<open>The second pass of \<^verbatim>\<open>unescape\<close>, on a string the first pass accepts.\<close>

fun unescape_bytes :: "encoding \<Rightarrow> string \<Rightarrow> string" where
  "unescape_bytes mode (c # a # b # s) =
     (if c = CHR ''%'' then char_of (unhex a * 16 + unhex b) # unescape_bytes mode s
      else if c = CHR ''+'' \<and> mode = encodeQueryComponent then CHR 0x20 # unescape_bytes mode (a # b # s)
      else c # unescape_bytes mode (a # b # s))"
| "unescape_bytes mode (c # s) =
     (if c = CHR ''+'' \<and> mode = encodeQueryComponent then CHR 0x20 # unescape_bytes mode s
      else c # unescape_bytes mode s)"
| "unescape_bytes mode [] = []"

definition unescape :: "string \<Rightarrow> encoding \<Rightarrow> string option" where
  "unescape s mode = (if unescape_ok mode s then Some (unescape_bytes mode s) else None)"

definition upperhex :: string where
  "upperhex = ''0123456789ABCDEF''"

definition escape_byte :: "encoding \<Rightarrow> char \<Rightarrow> string" where
  "escape_byte mode c =
     (if shouldEscape c mode then
        (if c = CHR 0x20 \<and> mode = encodeQueryComponent then ''+''
         else [CHR ''%'', upperhex ! (of_char c div 16), upperhex ! (of_char c mod 16)])
      else [c])"

definition escape :: "string \<Rightarrow> encoding \<Rightarrow> string" where
  "escape s mode = concat (map (escape_byte mode) s)"

definition validEncoded :: "string \<Rightarrow> encoding \<Rightarrow> bool" where
  "validEncoded s mode =
     list_all (\<lambda>c.
        c \<in> set [CHR ''!'', CHR ''$'', CHR ''&'', CHR 0x27, CHR ''('', CHR '')'', CHR ''*'', CHR ''+'',
                 CHR '','', CHR '';'', CHR ''='', CHR '':'', CHR ''@'', CHR ''['', CHR '']'', CHR ''%'']
        \<or> \<not> shouldEscape c mode) s"

text \<open>
  \<^verbatim>\<open>getScheme\<close>: the scan of the leading \<^verbatim>\<open>scheme:\<close>; the second argument is the number of
  bytes already scanned.
\<close>

fun getScheme_scan :: "string \<Rightarrow> nat \<Rightarrow> string \<Rightarrow> (string \<times> string) option" where
  "getScheme_scan rawURL i [] = Some ([], rawURL)"
| "getScheme_scan rawURL i (c # cs) =
     (if isLower c \<or> isUpper c then getScheme_scan rawURL (Suc i) cs
      else if isDigit c \<or> c = CHR ''+'' \<or> c = CHR ''-'' \<or> c = CHR ''.'' then
        (if i = 0 then Some ([], rawURL) else getScheme_scan rawURL (Suc i) cs)
      else if c = CHR '':'' then
        (if i = 0 then None else Some (take i rawURL, cs))
      else Some ([], rawURL))"

definition getScheme :: "string \<Rightarrow> (string \<times> string) option" where
  "getScheme rawURL = getScheme_scan rawURL 0 rawURL"

definition stringContainsCTLByte :: "string \<Rightarrow> bool" where
  "stringContainsCTLByte s = list_ex (\<lambda>b. of_char b < (0x20::nat) \<or> b = CHR 0x7F) s"

definition validOptionalPort :: "string \<Rightarrow> bool" where
  "validOptionalPort port =
     (case port of
        [] \<Rightarrow> True
      | c # ds \<Rightarrow> c = CHR '':'' \<and> list_all isDigit ds)"

definition validUserinfo :: "string \<Rightarrow> bool" where
  "validUserinfo s =
     list_all (\<lambda>r.
        isUpper r \<or> isLower r \<or> isDigit r \<or>
        r \<in> set [CHR ''-'', CHR ''.'', CHR ''_'', CHR '':'', CHR ''~'', CHR ''!'', CHR ''$'', CHR ''&'',
                 CHR 0x27, CHR ''('', CHR '')'', CHR ''*'', CHR ''+'', CHR '','', CHR '';'', CHR ''='',
                 CHR ''%'', CHR ''@'']) s"

definition parseHost :: "string \<Rightarrow> string option" where
  "parseHost host =
     (if HasPrefix host ''['' then
        (case LastIndex host CHR '']'' of
           None \<Rightarrow> None
         | Some i \<Rightarrow>
             if \<not> validOptionalPort (drop (i + 1) host) then None
             else
               (case Index (take i host) ''%25'' of
                  Some zone \<Rightarrow>
                    (case unescape (take zone host) encodeHost of
                       None \<Rightarrow> None
                     | Some host1 \<Rightarrow>
                         (case unescape (drop zone (take i host)) encodeZone of
                            None \<Rightarrow> None
                          | Some host2 \<Rightarrow>
                              (case unescape (drop i host) encodeHost of
                                 None \<Rightarrow> None
                               | Some host3 \<Rightarrow> Some (host1 @ host2 @ host3))))
                | None \<Rightarrow> unescape host encodeHost))
      else
        (case LastIndex host CHR '':'' of
           Some i \<Rightarrow> if \<not> validOptionalPort (drop i host) then None else unescape host encodeHost
         | None \<Rightarrow> unescape host encodeHost))"

definition parseAuthority :: "string \<Rightarrow> ((string \<times> string option) option \<times> string) option" where
  "parseAuthority authority =
     (case LastIndex authority CHR ''@'' of
        None \<Rightarrow> map_option (\<lambda>h. (None, h)) (parseHost authority)
      | Some i \<Rightarrow>
          (case parseHost (drop (i + 1) authority) of
             None \<Rightarrow> None
           | Some h \<Rightarrow>
               let userinfo = take i authority in
               if \<not> validUserinfo userinfo then None
               else if CHR '':'' \<notin> set userinfo then
                 (case unescape userinfo encodeUserPassword of
                    None \<Rightarrow> None
                  | Some u \<Rightarrow> Some (Some (u, None), h))
               else
                 (case unescape (fst (Cut userinfo CHR '':'')) encodeUserPassword of
                    None \<Rightarrow> None
                  | Some username \<Rightarrow>
                      (case unescape (snd (Cut userinfo CHR '':'')) encodeUserPassword of
                         None \<Rightarrow> None
                       | Some password \<Rightarrow> Some (Some (username, Some password), h)))))"

definition setPath :: "url_URL \<Rightarrow> string \<Rightarrow> url_URL option" where
  "setPath u p =
     (case unescape p encodePath of
        None \<Rightarrow> None
      | Some pth \<Rightarrow>
          Some (u\<lparr>Path := pth, RawPath := (if p = escape pth encodePath then [] else p)\<rparr>))"

definition setFragment :: "url_URL \<Rightarrow> string \<Rightarrow> url_URL option" where
  "setFragment u f =
     (case unescape f encodeFragment of
        None \<Rightarrow> None
      | Some frag \<Rightarrow>
          Some (u\<lparr>Fragment := frag,
                  RawFragment := (if f = escape frag encodeFragment then [] else f)\<rparr>))"

text \<open>\<^verbatim>\<open>parse(rawURL, viaRequest)\<close> with \<^verbatim>\<open>viaRequest = false\<close>, as \<^verbatim>\<open>url.Parse\<close> calls it.\<close>

definition parse :: "string \<Rightarrow> url_URL option" where
  "parse rawURL =
     (if stringContainsCTLByte rawURL then None
      else if rawURL = ''*'' then Some (empty_URL\<lparr>Path := ''*''\<rparr>)
      else
        (case getScheme rawURL of
           None \<Rightarrow> None
         | Some (scheme0, rest0) \<Rightarrow>
             let scheme = ToLower scheme0;
                 force = (HasSuffix rest0 ''?'' \<and> count_list rest0 CHR ''?'' = 1);
                 rest1 = (if force then butlast rest0 else fst (Cut rest0 CHR ''?''));
                 query = (if force then [] else snd (Cut rest0 CHR ''?''));
                 u = empty_URL\<lparr>Scheme := scheme, ForceQuery := force, RawQuery := query\<rparr>
             in
             if \<not> HasPrefix rest1 ''/'' \<and> scheme \<noteq> [] then Some (u\<lparr>Opaque := rest1\<rparr>)
             else if \<not> HasPrefix rest1 ''/'' \<and> CHR '':'' \<in> set (fst (Cut rest1 CHR ''/'')) then None
             else if (scheme \<noteq> [] \<or> \<not> HasPrefix rest1 ''///'') \<and> HasPrefix rest1 ''//'' then
               (let authority0 = drop 2 rest1;
                    authority = takeWhile (\<lambda>c. c \<noteq> CHR ''/'') authority0;
                    rest2 = dropWhile (\<lambda>c. c \<noteq> CHR ''/'') authority0
                in case parseAuthority authority of
                     None \<Rightarrow> None
                   | Some (usr, h) \<Rightarrow> setPath (u\<lparr>User := usr, Host := h\<rparr>) rest2)
             else if scheme \<noteq> [] \<and> HasPrefix rest1 ''/'' then setPath (u\<lparr>OmitHost := True\<rparr>) rest1
             else setPath u rest1))"

definition url_Parse :: "string \<Rightarrow> url_URL option" where
  "url_Parse rawURL =
     (let u = fst (Cut rawURL CHR ''#''); frag = snd (Cut rawURL CHR ''#'') in
      case parse u of
        None \<Rightarrow> None
      | Some url \<Rightarrow> if frag = [] then Some url else setFragment url frag)"

definition EscapedPath :: "url_URL \<Rightarrow> string" where
  "EscapedPath u =
     (if RawPath u \<noteq> [] \<and> validEncoded (RawPath u) encodePath
         \<and> unescape (RawPath u) encodePath = Some (Path u)
      then RawPath u
      else if Path u = ''*'' then ''*''
      else escape (Path u) encodePath)"

definition EscapedFragment :: "url_URL \<Rightarrow> string" where
  "EscapedFragment u =
     (if RawFragment u \<noteq> [] \<and> validEncoded (RawFragment u) encodeFragment
         \<and> unescape (RawFragment u) encodeFragment = Some (Fragment u)
      then RawFragment u
      else escape (Fragment u) encodeFragment)"

definition Userinfo_String :: "string \<times> string option \<Rightarrow> string" where
  "Userinfo_String ui =
     (case ui of
        (username, None) \<Rightarrow> escape username encodeUserPassword
      | (username, Some password) \<Rightarrow>
          escape username encodeUserPassword @ '':'' @ escape password encodeUserPassword)"

definition URL_String :: "url_URL \<Rightarrow> string" where
  "URL_String u =
     (let buf0 = (if Scheme u \<noteq> [] then Scheme u @ '':'' else []);
          buf1 =
            (if Opaque u \<noteq> [] then buf0 @ Opaque u
             else
               let buf2 =
                     (if Scheme u \<noteq> [] \<or> Host u \<noteq> [] \<or> User u \<noteq> None then
                        (if OmitHost u \<and> Host u = [] \<and> User u = None then buf0
                         else
                           buf0
                           @ (if Host u \<noteq> [] \<or> Path u \<noteq> [] \<or> User u \<noteq> None then ''//'' else [])
                           @ (case User u of None \<Rightarrow> [] | Some ui \<Rightarrow> Userinfo_String ui @ ''@'')
                           @ (if Host u \<noteq> [] then escape (Host u) encodeHost else []))
                      else buf0);
                   pth = EscapedPath u;
                   buf3 = (if pth \<noteq> [] \<and> hd pth \<noteq> CHR ''/'' \<and> Host u \<noteq> [] then buf2 @ ''/'' else buf2);
                   buf4 = (if buf3 = [] \<and> CHR '':'' \<in> set (fst (Cut pth CHR ''/'')) then ''./'' else buf3)
               in buf4 @ pth);
          buf5 = (if ForceQuery u \<or> RawQuery u \<noteq> [] then buf1 @ ''?'' @ RawQuery u else buf1)
      in if Fragment u \<noteq> [] then buf5 @ ''#'' @ EscapedFragment u else buf5)"

definition splitHostPort :: "string \<Rightarrow> string \<times> string" where
  "splitHostPort hostPort =
     (let (host, port) =
            (case LastIndex hostPort CHR '':'' of
               Some colon \<Rightarrow>
                 if validOptionalPort (drop colon hostPort)
                 then (take colon hostPort, drop (colon + 1) hostPort)
                 else (hostPort, [])
             | None \<Rightarrow> (hostPort, []))
      in if HasPrefix host ''['' \<and> HasSuffix host '']''
         then (butlast (drop 1 host), port) else (host, port))"

definition Hostname :: "url_URL \<Rightarrow> string" where
  "Hostname u = fst (splitHostPort (Host u))"

text \<open>\<^verbatim>\<open>strings.Split(s, "/")\<close>.\<close>

fun split_slash :: "string \<Rightarrow> string list" where
  "split_slash [] = [[]]"
| "split_slash (c # s) =
     (if c = CHR ''/'' then [] # split_slash s
      else (case split_slash s of [] \<Rightarrow> [[c]] | x # xs \<Rightarrow> (c # x) # xs))"

text \<open>
  One round of the loop of \<^verbatim>\<open>resolvePath\<close> on the element \<open>elem\<close>; the state is the
  builder \<^verbatim>\<open>dst\<close> and the flag \<^verbatim>\<open>first\<close>.
\<close>

definition resolve_elem :: "string \<times> bool \<Rightarrow> string \<Rightarrow> string \<times> bool" where
  "resolve_elem st elem =
     (case st of (dst, first) \<Rightarrow>
        if elem = ''.'' then (dst, False)
        else if elem = ''..'' then
          (case LastIndex (drop 1 dst) CHR ''/'' of
             None \<Rightarrow> (''/'', True)
           | Some index \<Rightarrow> (''/'' @ take index (drop 1 dst), first))
        else ((if first then dst else dst @ ''/'') @ elem, False))"

definition resolvePath :: "string \<Rightarrow> string \<Rightarrow> string" where
  "resolvePath base ref =
     (let full =
            (if ref = [] then base
             else if hd ref \<noteq> CHR ''/'' then
               (case LastIndex base CHR ''/'' of
                  None \<Rightarrow> ref
                | Some i \<Rightarrow> take (i + 1) base @ ref)
             else ref)
      in if full = [] then []
         else
           let elems = split_slash full;
               dst = fst (foldl resolve_elem (''/'', True) elems);
               r = (if last elems = ''.'' \<or> last elems = ''..'' then dst @ ''/'' else dst)
           in if 1 < length r \<and> r ! 1 = CHR ''/'' then drop 1 r else r)"

text \<open>\<^verbatim>\<open>url.setPath(p)\<close> with its error ignored, as \<^verbatim>\<open>ResolveReference\<close> calls it.\<close>

definition setPath_ignore :: "url_URL \<Rightarrow> string \<Rightarrow> url_URL" where
  "setPath_ignore u p = (case setPath u p of None \<Rightarrow> u | Some u' \<Rightarrow> u')"

definition ResolveReference :: "url_URL \<Rightarrow> url_URL \<Rightarrow> url_URL" where
  "ResolveReference u ref =
     (let url0 = (if Scheme ref = [] then ref\<lparr>Scheme := Scheme u\<rparr> else ref) in
      if Scheme ref \<noteq> [] \<or> Host ref \<noteq> [] \<or> User ref \<noteq> None then
        setPath_ignore url0 (resolvePath (EscapedPath ref) [])
      else if Opaque ref \<noteq> [] then url0\<lparr>User := None, Host := [], Path := []\<rparr>
      else
        let url1 =
              (if Path ref = [] \<and> \<not> ForceQuery ref \<and> RawQuery ref = [] then
                 (if Fragment ref = [] then
                    url0\<lparr>RawQuery := RawQuery u, Fragment := Fragment u, RawFragment := RawFragment u\<rparr>
                  else url0\<lparr>RawQuery := RawQuery u\<rparr>)
               else url0)
        in
        if Path ref = [] \<and> Opaque u \<noteq> [] then
          url1\<lparr>Opaque := Opaque u, User := None, Host := [], Path := []\<rparr>
        else
          setPath_ignore (url1\<lparr>Host := Host u, User := User u\<rparr>)
            (resolvePath (EscapedPath u) (EscapedPath ref)))"

section \<open>Package path of the Go library\<close>

text \<open>
  \<^verbatim>\<open>path.Base\<close> and \<^verbatim>\<open>path.Match\<close>, modelled after the library. \<^verbatim>\<open>Match\<close> reads its
  arguments rune by rune; here a rune is one byte, which is exact on ASCII text.
  \<open>None\<close> is \<^verbatim>\<open>ErrBadPattern\<close>.
\<close>

definition Base :: "string \<Rightarrow> string" where
  "Base pth =
     (if pth = [] then ''.''
      else
        let p1 = TrimRight pth ''/'';
            p2 = (case LastIndex p1 CHR ''/'' of None \<Rightarrow> p1 | Some i \<Rightarrow> drop (i + 1) p1)
        in if p2 = [] then ''/'' else p2)"

text \<open>The scan of \<^verbatim>\<open>scanChunk\<close>: the length of the chunk that starts the pattern.\<close>

fun scan_len :: "bool \<Rightarrow> string \<Rightarrow> nat" where
  "scan_len inrange [] = 0"
| "scan_len inrange [c] = (if c = CHR ''*'' \<and> \<not> inrange then 0 else 1)"
| "scan_len inrange (c # d # p) =
     (if c = CHR 0x5C then 2 + scan_len inrange p
      else if c = CHR ''['' then 1 + scan_len True (d # p)
      else if c = CHR '']'' then 1 + scan_len False (d # p)
      else if c = CHR ''*'' \<and> \<not> inrange then 0
      else 1 + scan_len inrange (d # p))"

definition scanChunk :: "string \<Rightarrow> bool \<times> string \<times> string" where
  "scanChunk pattern =
     (let p = dropWhile (\<lambda>c. c = CHR ''*'') pattern;
          star = (pattern \<noteq> [] \<and> hd pattern = CHR ''*'');
          i = scan_len False p
      in (star, take i p, drop i p))"

definition getEsc :: "string \<Rightarrow> (char \<times> string) option" where
  "getEsc chunk =
     (if chunk = [] \<or> hd chunk = CHR ''-'' \<or> hd chunk = CHR '']'' then None
      else
        (case (if hd chunk = CHR 0x5C then tl chunk else chunk) of
           [] \<Rightarrow> None
         | r # nchunk \<Rightarrow> if nchunk = [] then None else Some (r, nchunk)))"

lemma getEsc_shorter: "getEsc chunk = Some (r, nchunk) \<Longrightarrow> length nchunk < length chunk"
  by (cases chunk) (auto simp: getEsc_def split: if_splits list.splits)

text \<open>
  The loop over the ranges of a character class: \<open>r\<close> is the rune read from the name,
  \<open>match\<close> and \<open>nrange\<close> are the loop's variables; the result is \<open>match\<close> and the chunk
  after the closing bracket.
\<close>

function class_ranges :: "char \<Rightarrow> string \<Rightarrow> bool \<Rightarrow> nat \<Rightarrow> (bool \<times> string) option" where
  "class_ranges r chunk match nrange =
     (if chunk \<noteq> [] \<and> hd chunk = CHR '']'' \<and> 0 < nrange then Some (match, tl chunk)
      else
        (case getEsc chunk of
           None \<Rightarrow> None
         | Some (lo, chunk1) \<Rightarrow>
             if hd chunk1 = CHR ''-'' then
               (case getEsc (tl chunk1) of
                  None \<Rightarrow> None
                | Some (hi, chunk2) \<Rightarrow>
                    class_ranges r chunk2 (match \<or> (lo \<le> r \<and> r \<le> hi)) (nrange + 1))
             else class_ranges r chunk1 (match \<or> lo = r) (nrange + 1)))"
  by pat_completeness auto
termination
proof (relation "measure (\<lambda>(r, chunk, match, nrange). length chunk)")
  show "wf (measure (\<lambda>(r, chunk, match, nrange). length chunk))" by simp
next
  fix r :: char and chunk :: string and match :: bool and nrange :: nat
    and x2 :: "char \<times> string" and lo hi :: char and chunk1 chunk2 :: string and y :: "char \<times> string"
  assume a: "getEsc chunk = Some x2" "(lo, chunk1) = x2"
    and b: "getEsc (tl chunk1) = Some y" "(hi, chunk2) = y"
  from a have "length chunk1 < length chunk" using getEsc_shorter [of chunk lo chunk1] by simp
  moreover from b have "length chunk2 < length (tl chunk1)"
    using getEsc_shorter [of "tl chunk1" hi chunk2] by simp
  ultimately show "((r, chunk2, match \<or> lo \<le> r \<and> r \<le> hi, nrange + 1), r, chunk, match, nrange)
      \<in> measure (\<lambda>(r, chunk, match, nrange). length chunk)" by simp
next
  fix r :: char and chunk :: string and match :: bool and nrange :: nat
    and x2 :: "char \<times> string" and lo :: char and chunk1 :: string
  assume a: "getEsc chunk = Some x2" "(lo, chunk1) = x2"
  from a have "length chunk1 < length chunk" using getEsc_shorter [of chunk lo chunk1] by simp
  then show "((r, chunk1, match \<or> lo = r, nrange + 1), r, chunk, match, nrange)
      \<in> measure (\<lambda>(r, chunk, match, nrange). length chunk)" by simp
qed

declare class_ranges.simps [simp del]

lemma class_ranges_shorter:
  "class_ranges r chunk match nrange = Some (b, chunk') \<Longrightarrow> length chunk' < length chunk"
proof (induction r chunk match nrange rule: class_ranges.induct)
  case (1 r chunk match nrange)
  show ?case
  proof (cases "chunk \<noteq> [] \<and> hd chunk = CHR '']'' \<and> 0 < nrange")
    case True
    with "1.prems" have "chunk' = tl chunk"
      by (simp add: class_ranges.simps [of r chunk])
    with True show ?thesis by (cases chunk) auto
  next
    case False
    have unfold: "class_ranges r chunk match nrange =
      (case getEsc chunk of
         None \<Rightarrow> None
       | Some (lo, chunk1) \<Rightarrow>
           if hd chunk1 = CHR ''-'' then
             (case getEsc (tl chunk1) of
                None \<Rightarrow> None
              | Some (hi, chunk2) \<Rightarrow>
                  class_ranges r chunk2 (match \<or> (lo \<le> r \<and> r \<le> hi)) (nrange + 1))
           else class_ranges r chunk1 (match \<or> lo = r) (nrange + 1))"
      by (subst class_ranges.simps) (simp only: False if_False)
    show ?thesis
    proof (cases "getEsc chunk")
      case None
      with unfold "1.prems" show ?thesis by simp
    next
      case (Some x)
      obtain lo chunk1 where x: "x = (lo, chunk1)" by (cases x)
      have l1: "length chunk1 < length chunk" using getEsc_shorter Some x by blast
      show ?thesis
      proof (cases "hd chunk1 = CHR ''-''")
        case dash: True
        show ?thesis
        proof (cases "getEsc (tl chunk1)")
          case None
          with unfold Some x dash "1.prems" show ?thesis by simp
        next
          case inner: (Some y)
          obtain hi chunk2 where y: "y = (hi, chunk2)" by (cases y)
          have l2: "length chunk2 < length (tl chunk1)" using getEsc_shorter inner y by blast
          from unfold Some x dash inner y "1.prems"
          have "class_ranges r chunk2 (match \<or> (lo \<le> r \<and> r \<le> hi)) (nrange + 1) = Some (b, chunk')"
            by simp
          from "1.IH"(1) [OF False Some x [symmetric] dash inner y [symmetric] this] l1 l2
          show ?thesis by simp
        qed
      next
        case nodash: False
        from unfold Some x nodash "1.prems"
        have "class_ranges r chunk1 (match \<or> lo = r) (nrange + 1) = Some (b, chunk')"
          by simp
        from "1.IH"(2) [OF False Some x [symmetric] nodash this] l1
        show ?thesis by simp
      qed
    qed
  qed
qed

datatype chunk_result = BadPattern | Failed | Rest string

text \<open>
  \<^verbatim>\<open>matchChunk\<close>: the loop over the chunk, with the flag \<^verbatim>\<open>failed\<close> and the rest \<open>s\<close> of the
  name as state. After a failure the loop goes on through the chunk to check that it is
  well formed, without reading \<open>s\<close>.
\<close>

function matchChunk_loop :: "bool \<Rightarrow> string \<Rightarrow> string \<Rightarrow> chunk_result" where
  "matchChunk_loop failed [] s = (if failed then Failed else Rest s)"
| "matchChunk_loop failed0 (c # chunk) s =
     (let failed = (failed0 \<or> s = []) in
      if c = CHR ''['' then
        (let r = (if failed then CHR 0x00 else hd s);
             s1 = (if failed then s else tl s);
             negated = (chunk \<noteq> [] \<and> hd chunk = CHR ''^'');
             chunk1 = (if negated then tl chunk else chunk)
         in case class_ranges r chunk1 False 0 of
              None \<Rightarrow> BadPattern
            | Some (match, chunk2) \<Rightarrow> matchChunk_loop (failed \<or> match = negated) chunk2 s1)
      else if c = CHR ''?'' then
        matchChunk_loop (failed \<or> hd s = CHR ''/'') chunk (if failed then s else tl s)
      else if c = CHR 0x5C then
        (case chunk of
           [] \<Rightarrow> BadPattern
         | d # chunk1 \<Rightarrow> matchChunk_loop (failed \<or> d \<noteq> hd s) chunk1 (if failed then s else tl s))
      else matchChunk_loop (failed \<or> c \<noteq> hd s) chunk (if failed then s else tl s))"
  by pat_completeness auto
termination
proof (relation "measure (\<lambda>(failed, chunk, s). length chunk)", goal_cases)
  case 1
  show ?case by simp
next
  case (2 failed0 c chunk s failed r s1 negated chunk1 x2 match chunk2)
  then have "class_ranges r chunk1 False 0 = Some (match, chunk2)" by simp
  from class_ranges_shorter [OF this] 2 show ?case
    by (cases chunk) (auto split: if_splits)
qed auto

definition matchChunk :: "string \<Rightarrow> string \<Rightarrow> chunk_result" where
  "matchChunk chunk s = matchChunk_loop False chunk s"

lemma scanChunk_shorter:
  "pattern \<noteq> [] \<Longrightarrow> scanChunk pattern = (star, chunk, rest) \<Longrightarrow> length rest < length pattern"
proof -
  assume ne: "pattern \<noteq> []" and sc: "scanChunk pattern = (star, chunk, rest)"
  define p where "p = dropWhile (\<lambda>c. c = CHR ''*'') pattern"
  have rest: "rest = drop (scan_len False p) p" using sc by (simp add: scanChunk_def Let_def p_def)
  have lp: "length p \<le> length pattern" unfolding p_def by (rule length_dropWhile_le)
  show ?thesis
  proof (cases "hd pattern = CHR ''*''")
    case True
    with ne have "length p < length pattern"
      unfolding p_def by (cases pattern) (auto simp: less_Suc_eq_le length_dropWhile_le)
    then show ?thesis using rest by simp
  next
    case False
    with ne have pp: "p = pattern" unfolding p_def by (cases pattern) auto
    from False ne have "0 < scan_len False pattern"
      by (cases pattern; cases "tl pattern") auto
    with ne show ?thesis using rest pp by simp
  qed
qed

text \<open>
  The last loop of \<^verbatim>\<open>Match\<close>: before returning false with no error, the rest of the
  pattern is checked to be well formed.
\<close>

function pattern_wellformed :: "string \<Rightarrow> bool" where
  "pattern_wellformed pattern =
     (if pattern = [] then True
      else
        (case scanChunk pattern of
           (star, chunk, rest) \<Rightarrow> matchChunk chunk [] \<noteq> BadPattern \<and> pattern_wellformed rest))"
  by pat_completeness auto
termination
  by (relation "measure length") (auto dest: scanChunk_shorter [OF _ sym])

declare pattern_wellformed.simps [simp del]

text \<open>
  The inner loop of \<^verbatim>\<open>Match\<close> for a chunk after a star: skip \<open>i + 1\<close> bytes of the name,
  never a slash. The argument is \<^verbatim>\<open>name[i:]\<close>. \<open>Inl None\<close> is a return with the error,
  \<open>Inl (Some t)\<close> is \<^verbatim>\<open>continue Pattern\<close> with \<^verbatim>\<open>name = t\<close>, \<open>Inr ()\<close> is the end of the loop.
\<close>

fun skip_star :: "string \<Rightarrow> bool \<Rightarrow> string \<Rightarrow> string option + unit" where
  "skip_star chunk lastchunk [] = Inr ()"
| "skip_star chunk lastchunk (c # name) =
     (if c = CHR ''/'' then Inr ()
      else
        (case matchChunk chunk name of
           Rest t \<Rightarrow> if lastchunk \<and> t \<noteq> [] then skip_star chunk lastchunk name else Inl (Some t)
         | BadPattern \<Rightarrow> Inl None
         | Failed \<Rightarrow> skip_star chunk lastchunk name))"

function Match :: "string \<Rightarrow> string \<Rightarrow> bool option" where
  "Match pattern name =
     (if pattern = [] then Some (name = [])
      else
        (case scanChunk pattern of
           (star, chunk, rest) \<Rightarrow>
             if star \<and> chunk = [] then Some (CHR ''/'' \<notin> set name)
             else
               (case matchChunk chunk name of
                  BadPattern \<Rightarrow> None
                | r \<Rightarrow>
                    (case (case r of Rest t \<Rightarrow> if t = [] \<or> rest \<noteq> [] then Some t else None
                                   | _ \<Rightarrow> None) of
                       Some t \<Rightarrow> Match rest t
                     | None \<Rightarrow>
                         (case (if star then skip_star chunk (rest = []) name else Inr ()) of
                            Inl None \<Rightarrow> None
                          | Inl (Some t) \<Rightarrow> Match rest t
                          | Inr u \<Rightarrow> if pattern_wellformed rest then Some False else None)))))"
  by pat_completeness auto
termination
  by (relation "measure (\<lambda>(pattern, name). length pattern)")
    (auto dest: scanChunk_shorter [OF _ sym])

declare Match.simps [simp del]

section \<open>Package crawler: URL normalizer and exclusion matcher\<close>

text \<open>
  \<^verbatim>\<open>normalizeURL\<close> returns the printed URL and the parsed URL, or the parse error (\<open>None\<close>).
\<close>

definition normalizeURL :: "string \<Rightarrow> (string \<times> url_URL) option" where
  "normalizeURL raw =
     (case url_Parse raw of
        None \<Rightarrow> None
      | Some parsed0 \<Rightarrow>
          let parsed1 = parsed0\<lparr>Fragment := []\<rparr>;
              parsed2 = (if Path parsed1 = [] then parsed1\<lparr>Path := ''/''\<rparr> else parsed1);
              parsed3 = (if Path parsed2 \<noteq> ''/''
                         then parsed2\<lparr>Path := TrimRight (Path parsed2) ''/''\<rparr> else parsed2)
          in Some (URL_String parsed3, parsed3))"

datatype error =
  RootURLRequired
  | InvalidRootURL
  | InvalidRootURLMissingHost
  | ConfigureCrawlerConcurrency string
  | StartCrawling string

definition normalizeRoot :: "string \<Rightarrow> error + (string \<times> url_URL)" where
  "normalizeRoot raw =
     (let clean0 = TrimSpace raw in
      if clean0 = [] then Inl RootURLRequired
      else
        let clean = (if \<not> HasPrefix clean0 ''http://'' \<and> \<not> HasPrefix clean0 ''https://''
                     then ''https://'' @ clean0 else clean0)
        in case normalizeURL clean of
             None \<Rightarrow> Inl InvalidRootURL
           | Some (normalized, parsed) \<Rightarrow>
               if Hostname parsed = [] then Inl InvalidRootURLMissingHost
               else Inr (normalized, parsed))"

text \<open>
  \<^verbatim>\<open>isHTTP\<close> and \<^verbatim>\<open>isInternal\<close> take pointers; \<open>None\<close> is \<^verbatim>\<open>nil\<close>.
\<close>

definition isHTTP :: "url_URL option \<Rightarrow> bool" where
  "isHTTP u = (case u of None \<Rightarrow> False | Some v \<Rightarrow> Scheme v = ''http'' \<or> Scheme v = ''https'')"

definition isInternal :: "url_URL option \<Rightarrow> url_URL option \<Rightarrow> bool" where
  "isInternal root candidate =
     (case (root, candidate) of
        (Some r, Some c) \<Rightarrow> EqualFold (Hostname r) (Hostname c)
      | _ \<Rightarrow> False)"

text \<open>\<^verbatim>\<open>matched, _ := pathpkg.Match(pattern, name)\<close>: an error leaves \<^verbatim>\<open>matched\<close> false.\<close>

definition matched :: "string \<Rightarrow> string \<Rightarrow> bool" where
  "matched pattern name = (Match pattern name = Some True)"

fun shouldExclude :: "string \<Rightarrow> string list \<Rightarrow> bool" where
  "shouldExclude link [] = False"
| "shouldExclude link (pattern0 # patterns) =
     (let pattern = TrimSpace pattern0 in
      if pattern = [] then shouldExclude link patterns
      else if matched pattern link then True
      else
        (case url_Parse link of
           None \<Rightarrow> shouldExclude link patterns
         | Some parsed \<Rightarrow>
             if matched pattern (Path parsed) then True
             else if matched pattern (Base (Path parsed)) then True
             else if RawQuery parsed \<noteq> [] \<and>
                     (let queryPath = Path parsed @ ''?'' @ RawQuery parsed in
                      matched pattern queryPath \<or> matched pattern (TrimPrefix queryPath ''/''))
             then True
             else shouldExclude link patterns))"

section \<open>Package canonical: the canonical graph validator\<close>

text \<open>
  Go strings are byte sequences and are modelled as \<open>string\<close>. A Go
  \<^verbatim>\<open>map[string]string\<close> is modelled as an association list with pairwise distinct keys:
  \<open>map_of\<close> is the lookup, \<open>length\<close> is \<^verbatim>\<open>len\<close>, and the order of the list is the
  order in which a \<^verbatim>\<open>range\<close> loop happens to visit the entries (Go leaves it unspecified).
\<close>

type_synonym canonical_map = "(string \<times> string) list"

definition IssueNonHTTPScheme :: string where "IssueNonHTTPScheme = ''non_http_scheme''"
definition IssueCrossDomain :: string where "IssueCrossDomain = ''cross_domain''"
definition IssueTargetBroken :: string where "IssueTargetBroken = ''target_broken''"
definition IssueTargetRedirect :: string where "IssueTargetRedirect = ''target_redirect''"
definition IssueLoopOrChain :: string where "IssueLoopOrChain = ''loop_or_chain''"

record Issue =
  PageURL :: string
  CanonicalURL :: string
  Type :: string
  Detail :: string

definition chain_issue :: "string \<Rightarrow> string \<Rightarrow> Issue" where
  "chain_issue start target =
     \<lparr>PageURL = start, CanonicalURL = target, Type = IssueLoopOrChain,
      Detail = ''canonical chain detected''\<rparr>"

definition loop_issue :: "string \<Rightarrow> string \<Rightarrow> Issue" where
  "loop_issue start target =
     \<lparr>PageURL = start, CanonicalURL = target, Type = IssueLoopOrChain,
      Detail = ''canonical loop detected''\<rparr>"

text \<open>The local variables of the \<^verbatim>\<open>for\<close> loop of \<^verbatim>\<open>detectLoopOrChain\<close>.\<close>

record walk =
  visited :: "string \<rightharpoonup> nat"
  path :: "string list"
  steps :: nat
  current :: string

text \<open>
  One iteration of the loop: \<open>Inr r\<close> is a \<^verbatim>\<open>return\<close> (\<open>None\<close> for
  \<^verbatim>\<open>Issue{}, false\<close>), \<open>Inl w\<close> is the state at the start of the next iteration.
\<close>

definition loop_body ::
  "string \<Rightarrow> string \<Rightarrow> canonical_map \<Rightarrow> walk \<Rightarrow> walk + Issue option" where
  "loop_body start target canonicalByPage w =
     (case map_of canonicalByPage (current w) of
        None \<Rightarrow> Inr (if 2 \<le> steps w then Some (chain_issue start target) else None)
      | Some nxt \<Rightarrow>
          if nxt = [] then Inr (if 2 \<le> steps w then Some (chain_issue start target) else None)
          else if visited w (current w) \<noteq> None then Inr (Some (loop_issue start target))
          else
            let w1 = w\<lparr>visited := (visited w)(current w \<mapsto> length (path w) - 1)\<rparr> in
            if nxt = current w
            then Inr (if 2 \<le> steps w1 then Some (chain_issue start target) else None)
            else
              let w2 = w1\<lparr>path := path w1 @ [nxt], current := nxt, steps := steps w1 + 1\<rparr> in
              if length canonicalByPage + 1 < steps w2
              then Inr (Some (loop_issue start target))
              else Inl w2)"

lemma loop_body_steps:
  "loop_body start target m w = Inl w' \<Longrightarrow>
     steps w' = Suc (steps w) \<and> steps w' \<le> length m + 1"
  by (auto simp: loop_body_def Let_def split: option.splits if_splits)

function chain_loop ::
  "string \<Rightarrow> string \<Rightarrow> canonical_map \<Rightarrow> walk \<Rightarrow> Issue option" where
  "chain_loop start target canonicalByPage w =
     (case loop_body start target canonicalByPage w of
        Inl w' \<Rightarrow> chain_loop start target canonicalByPage w'
      | Inr r \<Rightarrow> r)"
  by pat_completeness auto
termination
proof (relation "measure (\<lambda>(start, target, m, w). length m + 2 - steps w)")
  show "wf (measure (\<lambda>(start, target, m, w). length m + 2 - steps w))" by simp
next
  fix start target :: string and canonicalByPage :: canonical_map and w w' :: walk
  assume "loop_body start target canonicalByPage w = Inl w'"
  from loop_body_steps [OF this]
  show "((start, target, canonicalByPage, w'), (start, target, canonicalByPage, w))
          \<in> measure (\<lambda>(start, target, m, w). length m + 2 - steps w)"
    by auto
qed

declare chain_loop.simps [simp del]

definition init_walk :: "string \<Rightarrow> string \<Rightarrow> walk" where
  "init_walk start target =
     \<lparr>visited = [start \<mapsto> 0], path = [start, target], steps = 1, current = target\<rparr>"

definition detectLoopOrChain :: "string \<Rightarrow> canonical_map \<Rightarrow> Issue option" where
  "detectLoopOrChain start canonicalByPage =
     (case map_of canonicalByPage start of
        None \<Rightarrow> None
      | Some target \<Rightarrow>
          if target = [] \<or> target = start then None
          else chain_loop start target canonicalByPage (init_walk start target))"

text \<open>
  The same loop with a budget of iterations: \<open>None\<close> when the budget is used up before
  the loop returns.
\<close>

fun chain_loop_within ::
  "nat \<Rightarrow> string \<Rightarrow> string \<Rightarrow> canonical_map \<Rightarrow> walk \<Rightarrow> Issue option option" where
  "chain_loop_within 0 start target canonicalByPage w = None"
| "chain_loop_within (Suc n) start target canonicalByPage w =
     (case loop_body start target canonicalByPage w of
        Inl w' \<Rightarrow> chain_loop_within n start target canonicalByPage w'
      | Inr r \<Rightarrow> Some r)"

definition detectLoopOrChain_within ::
  "nat \<Rightarrow> string \<Rightarrow> canonical_map \<Rightarrow> Issue option option" where
  "detectLoopOrChain_within n start canonicalByPage =
     (case map_of canonicalByPage start of
        None \<Rightarrow> Some None
      | Some target \<Rightarrow>
          if target = [] \<or> target = start then Some None
          else chain_loop_within n start target canonicalByPage (init_walk start target))"

text \<open>
  \<^verbatim>\<open>validatePair\<close>; \<^verbatim>\<open>statusByURL\<close> is only looked up and is modelled as a map.
\<close>

definition validatePair :: "string \<Rightarrow> string \<Rightarrow> (string \<rightharpoonup> int) \<Rightarrow> Issue option" where
  "validatePair page target statusByURL =
     (case url_Parse target of
        None \<Rightarrow> None
      | Some parsedTarget \<Rightarrow>
          if Scheme parsedTarget \<noteq> ''http'' \<and> Scheme parsedTarget \<noteq> ''https'' then
            Some \<lparr>PageURL = page, CanonicalURL = target, Type = IssueNonHTTPScheme,
                  Detail = ''canonical target is not HTTP(S)''\<rparr>
          else if (case url_Parse page of
                     None \<Rightarrow> False
                   | Some parsedPage \<Rightarrow> \<not> EqualFold (Hostname parsedPage) (Hostname parsedTarget))
          then
            Some \<lparr>PageURL = page, CanonicalURL = target, Type = IssueCrossDomain,
                  Detail = ''canonical target is on a different host''\<rparr>
          else
            (case statusByURL target of
               None \<Rightarrow> None
             | Some status \<Rightarrow>
                 if 300 \<le> status \<and> status < 400 then
                   Some \<lparr>PageURL = page, CanonicalURL = target, Type = IssueTargetRedirect,
                         Detail = ''canonical target responds with redirect''\<rparr>
                 else if status = 0 \<or> 400 \<le> status then
                   Some \<lparr>PageURL = page, CanonicalURL = target, Type = IssueTargetBroken,
                         Detail = ''canonical target is broken/unreachable''\<rparr>
                 else None))"

text \<open>
  The two deduplication keys of \<^verbatim>\<open>Validate\<close>, and the step that appends an issue unless
  its key has been seen. The state of the loop is the slice \<^verbatim>\<open>issues\<close> and the set \<^verbatim>\<open>seen\<close>.
\<close>

definition pair_key :: "Issue \<Rightarrow> string" where
  "pair_key issue = Type issue @ ''|'' @ PageURL issue @ ''|'' @ CanonicalURL issue"

definition chain_key :: "Issue \<Rightarrow> string" where
  "chain_key issue =
     Type issue @ ''|'' @ PageURL issue @ ''|'' @ CanonicalURL issue @ ''|'' @ Detail issue"

definition add_issue ::
  "(Issue \<Rightarrow> string) \<Rightarrow> Issue option \<Rightarrow> Issue list \<times> string set \<Rightarrow> Issue list \<times> string set" where
  "add_issue key found st =
     (case found of
        None \<Rightarrow> st
      | Some issue \<Rightarrow>
          if key issue \<in> snd st then st
          else (fst st @ [issue], insert (key issue) (snd st)))"

definition Validate_entry ::
  "canonical_map \<Rightarrow> (string \<rightharpoonup> int) \<Rightarrow> Issue list \<times> string set \<Rightarrow> string \<times> string
     \<Rightarrow> Issue list \<times> string set" where
  "Validate_entry canonicalByPage statusByURL st entry =
     (case entry of (page, target) \<Rightarrow>
        add_issue chain_key (detectLoopOrChain page canonicalByPage)
          (add_issue pair_key (validatePair page target statusByURL) st))"

text \<open>
  \<^verbatim>\<open>sort.Slice\<close> orders the issues by page URL, type, canonical URL and detail. The four
  fields are the whole record, so two issues that compare equal are the same issue and
  the sorted slice does not depend on the sorting algorithm.
\<close>

definition issue_order :: "Issue \<Rightarrow> string \<times> string \<times> string \<times> string" where
  "issue_order issue = (PageURL issue, Type issue, CanonicalURL issue, Detail issue)"

definition Validate :: "canonical_map \<Rightarrow> (string \<rightharpoonup> int) \<Rightarrow> Issue list" where
  "Validate canonicalByPage statusByURL =
     sort_key issue_order
       (fst (foldl (Validate_entry canonicalByPage statusByURL) ([], {}) canonicalByPage))"

text \<open>
  \<^verbatim>\<open>Validate\<close> with a budget of iterations for every walk: \<open>None\<close> when some walk uses
  up its budget.
\<close>

fun Validate_loop_within ::
  "nat \<Rightarrow> canonical_map \<Rightarrow> (string \<rightharpoonup> int) \<Rightarrow> Issue list \<times> string set
     \<Rightarrow> (string \<times> string) list \<Rightarrow> (Issue list \<times> string set) option" where
  "Validate_loop_within n canonicalByPage statusByURL st [] = Some st"
| "Validate_loop_within n canonicalByPage statusByURL st ((page, target) # entries) =
     (case detectLoopOrChain_within n page canonicalByPage of
        None \<Rightarrow> None
      | Some found \<Rightarrow>
          Validate_loop_within n canonicalByPage statusByURL
            (add_issue chain_key found
               (add_issue pair_key (validatePair page target statusByURL) st))
            entries)"

definition Validate_within ::
  "nat \<Rightarrow> canonical_map \<Rightarrow> (string \<rightharpoonup> int) \<Rightarrow> Issue list option" where
  "Validate_within n canonicalByPage statusByURL =
     map_option (\<lambda>st. sort_key issue_order (fst st))
       (Validate_loop_within n canonicalByPage statusByURL ([], {}) canonicalByPage)"

section \<open>Package canonical: the canonical extractor\<close>

text \<open>
  A parsed HTML document is used through selector queries and attribute reads only. It
  is modelled as the list of its elements in document order, each with its tag name,
  its attributes and its text content; \<open>None\<close> is the \<^verbatim>\<open>nil\<close> document.
\<close>

record element =
  elem_tag :: string
  elem_attrs :: "(string \<times> string) list"
  elem_text :: string

type_synonym document = "element list"

text \<open>\<^verbatim>\<open>doc.Find(`tag[name="value"]`)\<close> and \<^verbatim>\<open>doc.Find(`tag[name]`)\<close>.\<close>

definition Find_attr_eq :: "document \<Rightarrow> string \<Rightarrow> string \<Rightarrow> string \<Rightarrow> element list" where
  "Find_attr_eq doc tg name v =
     filter (\<lambda>e. elem_tag e = tg \<and> map_of (elem_attrs e) name = Some v) doc"

definition Find_attr :: "document \<Rightarrow> string \<Rightarrow> string \<Rightarrow> element list" where
  "Find_attr doc tg name =
     filter (\<lambda>e. elem_tag e = tg \<and> map_of (elem_attrs e) name \<noteq> None) doc"

definition Attr :: "element \<Rightarrow> string \<Rightarrow> string option" where
  "Attr e name = map_of (elem_attrs e) name"

definition AttrOr :: "element \<Rightarrow> string \<Rightarrow> string \<Rightarrow> string" where
  "AttrOr e name dflt = (case Attr e name of None \<Rightarrow> dflt | Some v \<Rightarrow> v)"

record Info =
  Info_PageURL :: string
  Info_CanonicalURL :: string
  TagCount :: nat
  Missing :: bool
  Multiple :: bool

text \<open>The \<^verbatim>\<open>normalizeURL\<close> of package canonical, which returns the string and a flag.\<close>

definition canonical_normalizeURL :: "string \<Rightarrow> string option" where
  "canonical_normalizeURL raw =
     (case url_Parse raw of
        None \<Rightarrow> None
      | Some parsed0 \<Rightarrow>
          let parsed1 = parsed0\<lparr>Fragment := []\<rparr>;
              parsed2 = (if Path parsed1 = [] then parsed1\<lparr>Path := ''/''\<rparr> else parsed1);
              parsed3 = (if Path parsed2 \<noteq> ''/''
                         then parsed2\<lparr>Path := TrimRight (Path parsed2) ''/''\<rparr> else parsed2)
          in Some (URL_String parsed3))"

definition resolveAgainstPage :: "string \<Rightarrow> string \<Rightarrow> string option" where
  "resolveAgainstPage pageURL href =
     (case url_Parse pageURL of
        None \<Rightarrow> None
      | Some base \<Rightarrow>
          (case url_Parse href of
             None \<Rightarrow> None
           | Some parsed \<Rightarrow> canonical_normalizeURL (URL_String (ResolveReference base parsed))))"

text \<open>
  The \<^verbatim>\<open>EachWithBreak\<close> loop of \<^verbatim>\<open>Extract\<close>: the trimmed \<^verbatim>\<open>href\<close> of the first tag that
  has a non-empty one, \<^verbatim>\<open>""\<close> when there is none.
\<close>

fun first_href :: "element list \<Rightarrow> string" where
  "first_href [] = []"
| "first_href (s # rest) =
     (let href = TrimSpace (AttrOr s ''href'' []) in
      if href = [] then first_href rest else href)"

definition Extract :: "string \<Rightarrow> document option \<Rightarrow> Info" where
  "Extract pageURL doc =
     (let info = \<lparr>Info_PageURL = pageURL, Info_CanonicalURL = [], TagCount = 0,
                  Missing = False, Multiple = False\<rparr>
      in case doc of
           None \<Rightarrow> info\<lparr>Missing := True\<rparr>
         | Some d \<Rightarrow>
             let canonicalLinks = Find_attr_eq d ''link'' ''rel'' ''canonical'';
                 info1 = info\<lparr>TagCount := length canonicalLinks\<rparr>
             in if TagCount info1 = 0 then info1\<lparr>Missing := True\<rparr>
                else
                  let info2 = (if 1 < TagCount info1 then info1\<lparr>Multiple := True\<rparr> else info1);
                      found = first_href canonicalLinks
                  in if found = [] then info2\<lparr>Missing := True\<rparr>
                     else
                       (case resolveAgainstPage pageURL found of
                          None \<Rightarrow> info2\<lparr>Info_CanonicalURL := found\<rparr>
                        | Some resolved \<Rightarrow> info2\<lparr>Info_CanonicalURL := resolved\<rparr>))"

section \<open>Package lastmod: the last-modified extractor\<close>

text \<open>
  A \<^verbatim>\<open>time.Time\<close> is an instant together with a location; \<^verbatim>\<open>t.UTC()\<close> keeps the instant
  and sets the location to UTC.
\<close>

datatype Location = UTC | Local | FixedZone string int

record Time =
  instant :: int
  location :: Location

definition Time_UTC :: "Time \<Rightarrow> Time" where
  "Time_UTC t = t\<lparr>location := UTC\<rparr>"

text \<open>
  \<^verbatim>\<open>time.Parse(layout, value)\<close> and \<^verbatim>\<open>json.Unmarshal\<close> belong to the Go library. They are
  parameters of the model: \<open>tp layout value\<close> is the parsed time, \<open>dec text\<close> is the
  decoded JSON value, and \<open>None\<close> is an error.
\<close>

type_synonym time_Parse = "string \<Rightarrow> string \<Rightarrow> Time option"

datatype json =
  JNull | JBool bool | JNumber string | JString string
  | JArray "json list" | JObject "(string \<times> json) list"

type_synonym json_decode = "string \<Rightarrow> json option"

definition knownFormats :: "string list" where
  "knownFormats =
     [''2006-01-02T15:04:05Z07:00'',
      ''2006-01-02T15:04:05Z'',
      ''2006-01-02T15:04:05'',
      ''2006-01-02'',
      ''Mon, 02 Jan 2006 15:04:05 MST'',
      ''Mon, 02 Jan 2006 15:04:05 -0700'',
      ''Monday, 02-Jan-06 15:04:05 MST'',
      ''Mon, 2 Jan 2006 15:04:05 MST'']"

fun first_layout :: "time_Parse \<Rightarrow> string \<Rightarrow> string list \<Rightarrow> Time option" where
  "first_layout tp raw [] = None"
| "first_layout tp raw (layout # layouts) =
     (case tp layout raw of Some t \<Rightarrow> Some t | None \<Rightarrow> first_layout tp raw layouts)"

definition parseTime :: "time_Parse \<Rightarrow> string \<Rightarrow> Time option" where
  "parseTime tp raw0 =
     (let raw = TrimSpace raw0 in
      if raw = [] then None else first_layout tp raw knownFormats)"

text \<open>
  \<^verbatim>\<open>json.Unmarshal\<close> into a \<^verbatim>\<open>map[string]interface{}\<close> succeeds on an object and on
  \<^verbatim>\<open>null\<close> (the map stays \<^verbatim>\<open>nil\<close>); into a \<^verbatim>\<open>[]map[string]interface{}\<close> it succeeds on
  an array whose elements are objects or \<^verbatim>\<open>null\<close>, and on \<^verbatim>\<open>null\<close>. A decoded Go map is
  the association list of its entries.
\<close>

definition Unmarshal_object :: "json_decode \<Rightarrow> string \<Rightarrow> (string \<times> json) list option" where
  "Unmarshal_object dec raw =
     (case dec raw of
        Some (JObject obj) \<Rightarrow> Some obj
      | Some JNull \<Rightarrow> Some []
      | _ \<Rightarrow> None)"

fun object_fields :: "json \<Rightarrow> (string \<times> json) list option" where
  "object_fields (JObject obj) = Some obj"
| "object_fields JNull = Some []"
| "object_fields _ = None"

definition Unmarshal_array :: "json_decode \<Rightarrow> string \<Rightarrow> (string \<times> json) list list option" where
  "Unmarshal_array dec raw =
     (case dec raw of
        Some (JArray items) \<Rightarrow> those (map object_fields items)
      | Some JNull \<Rightarrow> Some []
      | _ \<Rightarrow> None)"

lemma map_of_json_smaller:
  "map_of obj k = Some v \<Longrightarrow> size v < Suc (size_list (size_prod (\<lambda>x. 0) size) obj)"
  by (induction obj) (auto split: if_splits)

function extractDateModified :: "time_Parse \<Rightarrow> (string \<times> json) list \<Rightarrow> Time option"
  and extract_graph :: "time_Parse \<Rightarrow> json list \<Rightarrow> Time option" where
  "extractDateModified tp obj =
     (case (case map_of obj ''dateModified'' of
              Some (JString s) \<Rightarrow> parseTime tp s
            | _ \<Rightarrow> None) of
        Some t \<Rightarrow> Some t
      | None \<Rightarrow>
          (case map_of obj ''@graph'' of
             Some (JArray items) \<Rightarrow> extract_graph tp items
           | _ \<Rightarrow> None))"
| "extract_graph tp [] = None"
| "extract_graph tp (item # items) =
     (case (case item of JObject m \<Rightarrow> extractDateModified tp m | _ \<Rightarrow> None) of
        Some t \<Rightarrow> Some t
      | None \<Rightarrow> extract_graph tp items)"
  by pat_completeness auto
termination
proof (relation "measure (\<lambda>x. case x of
          Inl (tp, obj) \<Rightarrow> Suc (size_list (size_prod (\<lambda>x. 0) size) obj)
        | Inr (tp, items) \<Rightarrow> Suc (size_list size items))", goal_cases)
  case 1
  show ?case by simp
next
  case (2 tp obj x2 items)
  from map_of_json_smaller [OF 2(2)] 2(3) show ?case by simp
next
  case (3 tp item items m)
  then show ?case by simp
next
  case (4 tp item items)
  then show ?case by simp
qed

declare extractDateModified.simps [simp del]

fun first_in_array :: "time_Parse \<Rightarrow> (string \<times> json) list list \<Rightarrow> Time option" where
  "first_in_array tp [] = None"
| "first_in_array tp (item # arr) =
     (case extractDateModified tp item of Some t \<Rightarrow> Some t | None \<Rightarrow> first_in_array tp arr)"

text \<open>The \<^verbatim>\<open>EachWithBreak\<close> loop of \<^verbatim>\<open>fromJSONLD\<close> over the script blocks.\<close>

fun fromJSONLD_blocks :: "time_Parse \<Rightarrow> json_decode \<Rightarrow> element list \<Rightarrow> Time option" where
  "fromJSONLD_blocks tp dec [] = None"
| "fromJSONLD_blocks tp dec (s # blocks) =
     (let raw = TrimSpace (elem_text s) in
      if raw = [] then fromJSONLD_blocks tp dec blocks
      else
        (case Unmarshal_object dec raw of
           Some obj \<Rightarrow>
             (case extractDateModified tp obj of
                Some t \<Rightarrow> Some t
              | None \<Rightarrow> fromJSONLD_blocks tp dec blocks)
         | None \<Rightarrow>
             (case Unmarshal_array dec raw of
                Some arr \<Rightarrow>
                  (case first_in_array tp arr of
                     Some t \<Rightarrow> Some t
                   | None \<Rightarrow> fromJSONLD_blocks tp dec blocks)
              | None \<Rightarrow> fromJSONLD_blocks tp dec blocks)))"

definition fromJSONLD :: "time_Parse \<Rightarrow> json_decode \<Rightarrow> document \<Rightarrow> Time option" where
  "fromJSONLD tp dec doc =
     fromJSONLD_blocks tp dec (Find_attr_eq doc ''script'' ''type'' ''application/ld+json'')"

text \<open>
  One round of the loop of \<^verbatim>\<open>fromMetaTags\<close>: \<^verbatim>\<open>doc.Find(sel).First().Attr("content")\<close>
  for the selector \<^verbatim>\<open>meta[property="p"]\<close>.
\<close>

definition meta_time :: "time_Parse \<Rightarrow> document \<Rightarrow> string \<Rightarrow> Time option" where
  "meta_time tp doc property =
     (case Find_attr_eq doc ''meta'' ''property'' property of
        [] \<Rightarrow> None
      | e # _ \<Rightarrow>
          (case Attr e ''content'' of
             None \<Rightarrow> None
           | Some val \<Rightarrow> parseTime tp (TrimSpace val)))"

fun fromMetaTags_loop :: "time_Parse \<Rightarrow> document \<Rightarrow> string list \<Rightarrow> Time option" where
  "fromMetaTags_loop tp doc [] = None"
| "fromMetaTags_loop tp doc (property # selectors) =
     (case meta_time tp doc property of
        Some t \<Rightarrow> Some t
      | None \<Rightarrow> fromMetaTags_loop tp doc selectors)"

definition fromMetaTags :: "time_Parse \<Rightarrow> document \<Rightarrow> Time option" where
  "fromMetaTags tp doc =
     fromMetaTags_loop tp doc [''article:modified_time'', ''og:updated_time'']"

text \<open>
  An \<^verbatim>\<open>http.Header\<close> maps a canonical header name to its values; \<^verbatim>\<open>Get\<close> returns the first
  value, or \<^verbatim>\<open>""\<close>. \<open>None\<close> is the \<^verbatim>\<open>nil\<close> header.
\<close>

type_synonym Header = "string \<rightharpoonup> string list"

definition Header_Get :: "Header \<Rightarrow> string \<Rightarrow> string" where
  "Header_Get h key = (case h key of Some (v # _) \<Rightarrow> v | _ \<Rightarrow> [])"

definition fromHeader :: "time_Parse \<Rightarrow> Header \<Rightarrow> Time option" where
  "fromHeader tp header =
     (let raw = TrimSpace (Header_Get header ''Last-Modified'') in
      if raw = [] then None else parseTime tp raw)"

definition GetLastModified ::
  "time_Parse \<Rightarrow> json_decode \<Rightarrow> Header option \<Rightarrow> document option \<Rightarrow> Time \<Rightarrow> Time" where
  "GetLastModified tp dec header doc now =
     (case (case doc of
              None \<Rightarrow> None
            | Some d \<Rightarrow>
                (case fromJSONLD tp dec d of
                   Some t \<Rightarrow> Some (Time_UTC t)
                 | None \<Rightarrow>
                     (case fromMetaTags tp d of
                        Some t \<Rightarrow> Some (Time_UTC t)
                      | None \<Rightarrow> None))) of
        Some t \<Rightarrow> t
      | None \<Rightarrow>
          (case (case header of None \<Rightarrow> None | Some h \<Rightarrow> fromHeader tp h) of
             Some t \<Rightarrow> Time_UTC t
           | None \<Rightarrow> Time_UTC now))"

section \<open>Package crawler: the crawl\<close>

record Options =
  RootURL :: string
  MaxDepth :: int
  Threads :: int
  UserAgent :: string
  ExcludePatterns :: "string list"
  RequestTimeout :: int

record BrokenLinkTask =
  URL :: string
  Status :: int
  Sources :: "string list"

record Result =
  ValidURLs :: "string list"
  BrokenLinks :: "string \<rightharpoonup> int"
  BrokenLinkTasks :: "BrokenLinkTask list"
  LastModified :: "string \<rightharpoonup> Time"
  Discovered :: nat
  ExcludedURLs :: int

text \<open>
  The variables that the three callbacks of \<^verbatim>\<open>Crawl\<close> share under the mutex \<^verbatim>\<open>mu\<close>. The
  map \<^verbatim>\<open>broken\<close> is ranged over when the result is assembled and is an association list
  with distinct keys; the maps used as sets are sets.
\<close>

record crawl_state =
  valid :: "string set"
  broken :: "(string \<times> int) list"
  discovered :: "string set"
  sources :: "string \<rightharpoonup> string set"
  lastModified :: "string \<rightharpoonup> Time"
  excluded :: int

definition init_state :: crawl_state where
  "init_state =
     \<lparr>valid = {}, broken = [], discovered = {}, sources = Map.empty,
      lastModified = Map.empty, excluded = 0\<rparr>"

text \<open>
  The collector of the colly library fetches pages and calls the callbacks; it is not
  part of the program. One call of a callback is an event, which carries what the
  callback reads from its argument:
  \<^item> \<open>HTMLElement href absolute requestURL\<close> for \<^verbatim>\<open>OnHTML("a[href]", ...)\<close>: the attribute
    \<^verbatim>\<open>href\<close>, the result of \<^verbatim>\<open>e.Request.AbsoluteURL\<close> on the trimmed attribute, and
    \<^verbatim>\<open>e.Request.URL.String()\<close>;
  \<^item> \<open>Response requestURL status headers doc\<close> for \<^verbatim>\<open>OnResponse\<close>: \<^verbatim>\<open>r.Request.URL.String()\<close>,
    \<^verbatim>\<open>r.StatusCode\<close>, \<^verbatim>\<open>r.Headers\<close> and the document that goquery parses from \<^verbatim>\<open>r.Body\<close>;
  \<^item> \<open>Failure requestURL status\<close> for \<^verbatim>\<open>OnError\<close>: the request URL, \<open>None\<close> when \<^verbatim>\<open>r\<close>,
    \<^verbatim>\<open>r.Request\<close> or \<^verbatim>\<open>r.Request.URL\<close> is \<^verbatim>\<open>nil\<close>, and \<^verbatim>\<open>r.StatusCode\<close>.
  Each callback runs its updates while it holds \<^verbatim>\<open>mu\<close>, so a crawl is a sequence of
  events applied one after the other.
\<close>

datatype event =
  HTMLElement string string string
  | Response string int "Header option" "document option"
  | Failure "string option" int

text \<open>
  The \<^verbatim>\<open>OnHTML\<close> callback. The second component of the result is the argument of
  \<^verbatim>\<open>e.Request.Visit\<close> when the callback reaches that call.
\<close>

definition onHTML ::
  "url_URL \<Rightarrow> string list \<Rightarrow> string \<Rightarrow> string \<Rightarrow> string \<Rightarrow> crawl_state
     \<Rightarrow> crawl_state \<times> string option" where
  "onHTML parsedRoot patterns href absolute requestURL st =
     (let raw = TrimSpace href in
      if raw = [] then (st, None)
      else if absolute = [] then (st, None)
      else
        (case normalizeURL absolute of
           None \<Rightarrow> (st, None)
         | Some (normalizedLink, parsedLink) \<Rightarrow>
             if \<not> isHTTP (Some parsedLink) \<or> \<not> isInternal (Some parsedRoot) (Some parsedLink)
             then (st, None)
             else if shouldExclude normalizedLink patterns
             then (st\<lparr>excluded := excluded st + 1\<rparr>, None)
             else
               let st1 = st\<lparr>discovered := insert normalizedLink (discovered st)\<rparr>;
                   st2 =
                     (case normalizeURL requestURL of
                        None \<Rightarrow> st1
                      | Some (sourceURL, parsedSource) \<Rightarrow>
                          st1\<lparr>sources := (sources st1)(normalizedLink \<mapsto>
                                insert sourceURL
                                  (case sources st1 normalizedLink of
                                     None \<Rightarrow> {}
                                   | Some sourceSet \<Rightarrow> sourceSet))\<rparr>)
               in (st2, Some normalizedLink)))"

definition onResponse ::
  "time_Parse \<Rightarrow> json_decode \<Rightarrow> Time \<Rightarrow> string \<Rightarrow> int \<Rightarrow> Header option \<Rightarrow> document option
     \<Rightarrow> crawl_state \<Rightarrow> crawl_state" where
  "onResponse tp dec now requestURL status headers doc st =
     (case normalizeURL requestURL of
        None \<Rightarrow> st
      | Some (normalizedLink, parsedLink) \<Rightarrow>
          let st1 = st\<lparr>discovered := insert normalizedLink (discovered st)\<rparr> in
          if 200 \<le> status \<and> status < 400 then
            st1\<lparr>valid := insert normalizedLink (valid st1),
                broken := AList.delete normalizedLink (broken st1),
                lastModified := (lastModified st1)(normalizedLink \<mapsto>
                                  GetLastModified tp dec headers doc now)\<rparr>
          else
            st1\<lparr>broken := AList.update normalizedLink status (broken st1),
                valid := valid st1 - {normalizedLink}\<rparr>)"

definition onError :: "string option \<Rightarrow> int \<Rightarrow> crawl_state \<Rightarrow> crawl_state" where
  "onError requestURL status st =
     (case requestURL of
        None \<Rightarrow> st
      | Some raw \<Rightarrow>
          (case normalizeURL raw of
             None \<Rightarrow> st
           | Some (normalizedLink, parsedLink) \<Rightarrow>
               st\<lparr>broken := AList.update normalizedLink status (broken st),
                  valid := valid st - {normalizedLink}\<rparr>))"

text \<open>
  One event applied to the shared variables; the list collects the arguments of the
  calls of \<^verbatim>\<open>e.Request.Visit\<close>, in order.
\<close>

fun handle ::
  "time_Parse \<Rightarrow> json_decode \<Rightarrow> Time \<Rightarrow> url_URL \<Rightarrow> string list
     \<Rightarrow> crawl_state \<times> string list \<Rightarrow> event \<Rightarrow> crawl_state \<times> string list" where
  "handle tp dec now parsedRoot patterns (st, visits) (HTMLElement href absolute requestURL) =
     (case onHTML parsedRoot patterns href absolute requestURL st of
        (st', None) \<Rightarrow> (st', visits)
      | (st', Some link) \<Rightarrow> (st', visits @ [link]))"
| "handle tp dec now parsedRoot patterns (st, visits) (Response requestURL status headers doc) =
     (onResponse tp dec now requestURL status headers doc st, visits)"
| "handle tp dec now parsedRoot patterns (st, visits) (Failure requestURL status) =
     (onError requestURL status st, visits)"

definition run_events ::
  "time_Parse \<Rightarrow> json_decode \<Rightarrow> Time \<Rightarrow> url_URL \<Rightarrow> string list \<Rightarrow> event list
     \<Rightarrow> crawl_state \<times> string list" where
  "run_events tp dec now parsedRoot patterns events =
     foldl (handle tp dec now parsedRoot patterns) (init_state, []) events"

text \<open>The code of \<^verbatim>\<open>Crawl\<close> after \<^verbatim>\<open>c.Wait()\<close>: the result built from the shared variables.\<close>

definition broken_task :: "crawl_state \<Rightarrow> string \<times> int \<Rightarrow> BrokenLinkTask" where
  "broken_task st entry =
     (case entry of (u, status) \<Rightarrow>
        \<lparr>URL = u, Status = status,
         Sources = (case sources st u of
                      None \<Rightarrow> []
                    | Some sourceSet \<Rightarrow> sorted_list_of_set sourceSet)\<rparr>)"

definition assemble :: "string list \<Rightarrow> crawl_state \<Rightarrow> Result" where
  "assemble patterns st =
     (let kept = filter (\<lambda>(u, status). \<not> shouldExclude u patterns) (broken st) in
      \<lparr>ValidURLs = sorted_list_of_set (Set.filter (\<lambda>u. \<not> shouldExclude u patterns) (valid st)),
       BrokenLinks = map_of kept,
       BrokenLinkTasks = sort_key URL (map (broken_task st) kept),
       LastModified = lastModified st,
       Discovered = card (discovered st),
       ExcludedURLs = excluded st\<rparr>)"

text \<open>
  What the collector contributes to one run of \<^verbatim>\<open>Crawl\<close>: the error of \<^verbatim>\<open>c.Limit\<close> for
  the given parallelism, the error of \<^verbatim>\<open>c.Visit\<close> on the normalized root, and the events
  it dispatches until \<^verbatim>\<open>c.Wait()\<close> returns.
\<close>

record collector =
  Limit :: "int \<Rightarrow> string option"
  Visit :: "string \<Rightarrow> string option"
  dispatched :: "event list"

definition Crawl ::
  "time_Parse \<Rightarrow> json_decode \<Rightarrow> Time \<Rightarrow> collector \<Rightarrow> Options \<Rightarrow> error + Result" where
  "Crawl tp dec now c opts =
     (case normalizeRoot (RootURL opts) of
        Inl err \<Rightarrow> Inl err
      | Inr (normalizedRoot, parsedRoot) \<Rightarrow>
          let threads = (if Threads opts \<le> 0 then 5 else Threads opts) in
          (case Limit c threads of
             Some err \<Rightarrow> Inl (ConfigureCrawlerConcurrency err)
           | None \<Rightarrow>
               (case Visit c normalizedRoot of
                  Some err \<Rightarrow> Inl (StartCrawling err)
                | None \<Rightarrow>
                    Inr (assemble (ExcludePatterns opts)
                           (fst (run_events tp dec now parsedRoot (ExcludePatterns opts)
                                   (dispatched c)))))))"

text \<open>
  The invariant of the shared variables: the sets are finite, the keys of \<^verbatim>\<open>broken\<close> are
  distinct, and no URL of \<^verbatim>\<open>valid\<close> is a key of \<^verbatim>\<open>broken\<close>.
\<close>

definition crawl_inv :: "crawl_state \<Rightarrow> bool" where
  "crawl_inv st =
     (finite (valid st) \<and> finite (discovered st) \<and> distinct (map fst (broken st))
      \<and> (\<forall>u \<in> valid st. map_of (broken st) u = None))"


section \<open>Example inputs\<close>










section \<open>Termination of the canonical-chain walk\<close>

lemma chain_loop_within_enough:
  "length m + 2 - steps w \<le> n \<Longrightarrow> 0 < n \<Longrightarrow>
     chain_loop_within n start target m w = Some (chain_loop start target m w)"
proof (induction n arbitrary: w)
  case 0
  then show ?case by simp
next
  case (Suc n)
  show ?case
  proof (cases "loop_body start target m w")
    case (Inr r)
    then show ?thesis by (simp add: chain_loop.simps [of start target m w])
  next
    case (Inl w')
    from loop_body_steps [OF Inl]
    have st: "steps w' = Suc (steps w)" "steps w' \<le> length m + 1" by simp_all
    with Suc.prems have "length m + 2 - steps w' \<le> n" "0 < n" by simp_all
    from Suc.IH [OF this] Inl show ?thesis
      by (simp add: chain_loop.simps [of start target m w])
  qed
qed

lemma detectLoopOrChain_within_enough:
  "detectLoopOrChain_within (length m + 1) start m = Some (detectLoopOrChain start m)"
proof -
  have "chain_loop_within (length m + 1) start target m (init_walk start target)
          = Some (chain_loop start target m (init_walk start target))" for target
    by (rule chain_loop_within_enough) (simp_all add: init_walk_def)
  then show ?thesis
    by (simp add: detectLoopOrChain_within_def detectLoopOrChain_def split: option.splits)
qed

lemma Validate_loop_within_enough:
  "Validate_loop_within (length m + 1) m statusByURL st entries
     = Some (foldl (Validate_entry m statusByURL) st entries)"
proof (induction entries arbitrary: st)
  case Nil
  show ?case by simp
next
  case (Cons e entries)
  obtain page target where e: "e = (page, target)" by (cases e)
  show ?case
    by (simp add: e detectLoopOrChain_within_enough [simplified] Cons.IH [simplified]
        Validate_entry_def)
qed

text \<open>
  C6. The canonical-chain walk terminates on every map, cyclic or not: for every map
  and every start page the loop of \<open>detectLoopOrChain\<close> returns within
  \<open>length canonicalByPage + 1\<close> iterations, and so does every walk that \<open>Validate\<close>
  starts, so that \<open>Validate\<close> returns too. The budgeted functions return \<open>None\<close> when
  the budget does not suffice; with the budget of map size + 1 they return the result
  of the unbudgeted functions.
\<close>

theorem detectLoopOrChain_terminates:
  "detectLoopOrChain_within (length canonicalByPage + 1) start canonicalByPage
     = Some (detectLoopOrChain start canonicalByPage)
   \<and> Validate_within (length canonicalByPage + 1) canonicalByPage statusByURL
     = Some (Validate canonicalByPage statusByURL)"
  by (simp add: detectLoopOrChain_within_enough [simplified]
      Validate_loop_within_enough [simplified] Validate_within_def Validate_def)

section \<open>Invariants of the crawl\<close>

lemma crawl_inv_init: "crawl_inv init_state"
  by (simp add: crawl_inv_def init_state_def)

lemma onHTML_frame:
  "valid (fst (onHTML parsedRoot patterns href absolute requestURL st)) = valid st
   \<and> broken (fst (onHTML parsedRoot patterns href absolute requestURL st)) = broken st
   \<and> lastModified (fst (onHTML parsedRoot patterns href absolute requestURL st)) = lastModified st
   \<and> discovered (fst (onHTML parsedRoot patterns href absolute requestURL st)) \<subseteq>
       discovered st \<union> (case snd (onHTML parsedRoot patterns href absolute requestURL st) of None \<Rightarrow> {} | Some v \<Rightarrow> {v})"
  by (simp add: onHTML_def Let_def split: option.split prod.split)

lemma crawl_inv_onHTML:
  "crawl_inv st \<Longrightarrow> crawl_inv (fst (onHTML parsedRoot patterns href absolute requestURL st))"
proof -
  assume i: "crawl_inv st"
  let ?st = "fst (onHTML parsedRoot patterns href absolute requestURL st)"
  from onHTML_frame [of parsedRoot patterns href absolute requestURL st]
  have f: "valid ?st = valid st" "broken ?st = broken st"
    and d: "discovered ?st \<subseteq> discovered st \<union> (case snd (onHTML parsedRoot patterns href absolute requestURL st) of None \<Rightarrow> {} | Some v \<Rightarrow> {v})"
    by simp_all
  have "finite (discovered st \<union> (case snd (onHTML parsedRoot patterns href absolute requestURL st) of None \<Rightarrow> {} | Some v \<Rightarrow> {v}))"
    using i by (simp add: crawl_inv_def split: option.split)
  with d have "finite (discovered ?st)" by (rule finite_subset)
  with i f show ?thesis by (simp add: crawl_inv_def)
qed

lemma crawl_inv_onResponse:
  "crawl_inv st \<Longrightarrow> crawl_inv (onResponse tp dec now requestURL status headers doc st)"
  by (simp add: crawl_inv_def onResponse_def Let_def distinct_delete distinct_update
        update_conv' delete_conv' split: option.split prod.split)

lemma crawl_inv_onError:
  "crawl_inv st \<Longrightarrow> crawl_inv (onError requestURL status st)"
  by (simp add: crawl_inv_def onError_def distinct_update update_conv' split: option.split prod.split)


lemma crawl_inv_handle:
  "crawl_inv (fst acc) \<Longrightarrow> crawl_inv (fst (handle tp dec now parsedRoot patterns acc ev))"
proof -
  assume i: "crawl_inv (fst acc)"
  obtain st visits where acc: "acc = (st, visits)" by (cases acc)
  show ?thesis
  proof (cases ev)
    case (HTMLElement href absolute requestURL)
    have "fst (handle tp dec now parsedRoot patterns acc ev)
            = fst (onHTML parsedRoot patterns href absolute requestURL st)"
      by (simp add: acc HTMLElement split: prod.split option.split)
    with crawl_inv_onHTML [of st] i acc show ?thesis by simp
  next
    case (Response requestURL status headers doc)
    with crawl_inv_onResponse [of st] i acc show ?thesis by simp
  next
    case (Failure requestURL status)
    with crawl_inv_onError [of st] i acc show ?thesis by simp
  qed
qed

lemma crawl_inv_foldl:
  "crawl_inv (fst acc) \<Longrightarrow>
     crawl_inv (fst (foldl (handle tp dec now parsedRoot patterns) acc events))"
  by (induction events arbitrary: acc) (simp_all add: crawl_inv_handle)

lemma crawl_inv_run: "crawl_inv (fst (run_events tp dec now parsedRoot patterns events))"
  unfolding run_events_def by (rule crawl_inv_foldl) (simp add: crawl_inv_init)

lemma ValidURLs_assemble:
  "crawl_inv st \<Longrightarrow>
     set (ValidURLs (assemble patterns st)) = {u \<in> valid st. \<not> shouldExclude u patterns}"
  by (auto simp: assemble_def Let_def crawl_inv_def)

lemma map_of_filter_fst:
  "map_of (filter (\<lambda>(u, s). P u) al) k = (if P k then map_of al k else None)"
  by (induction al) auto

lemma BrokenLinks_assemble:
  "BrokenLinks (assemble patterns st) u
     = (if shouldExclude u patterns then None else map_of (broken st) u)"
  by (simp add: assemble_def Let_def map_of_filter_fst)




lemma onResponse_status:
  "normalizeURL requestURL = Some (link, parsedLink) \<Longrightarrow>
     (let st' = onResponse tp dec now requestURL status headers doc st in
      if 200 \<le> status \<and> status < 400
      then link \<in> valid st' \<and> map_of (broken st') link = None
      else link \<notin> valid st' \<and> map_of (broken st') link = Some status)"
  by (simp add: onResponse_def Let_def update_conv' delete_conv')

lemma onError_status:
  "normalizeURL requestURL = Some (link, parsedLink) \<Longrightarrow>
     (let st' = onError (Some requestURL) status st in
      link \<notin> valid st' \<and> map_of (broken st') link = Some status)"
  by (simp add: onError_def Let_def update_conv')

lemma Crawl_Inr:
  "Crawl tp dec now c opts = Inr r \<Longrightarrow>
     \<exists>normalizedRoot parsedRoot.
        normalizeRoot (RootURL opts) = Inr (normalizedRoot, parsedRoot)
        \<and> r = assemble (ExcludePatterns opts)
                (fst (run_events tp dec now parsedRoot (ExcludePatterns opts) (dispatched c)))"
  by (auto simp: Crawl_def Let_def split: sum.splits option.splits prod.splits)

text \<open>
  C3. At every point of a crawl (after any sequence of callbacks) no URL is both in
  \<open>valid\<close> and a key of \<open>broken\<close>, and the same holds for \<open>ValidURLs\<close> and
  \<open>BrokenLinks\<close> of the result that \<open>Crawl\<close> returns. A response with a status in
  200..399 puts its URL into \<open>valid\<close> and removes it from \<open>broken\<close>; any other
  response, and an error, puts it into \<open>broken\<close> with the status and removes it from
  \<open>valid\<close>: the latest status wins.
\<close>

theorem valid_broken_exclusive:
  "(let st = fst (run_events tp dec now parsedRoot patterns events) in
      valid st \<inter> dom (map_of (broken st)) = {})
   \<and> (\<forall>r. Crawl tp dec now c opts = Inr r \<longrightarrow> set (ValidURLs r) \<inter> dom (BrokenLinks r) = {})
   \<and> (\<forall>link parsedLink. normalizeURL requestURL = Some (link, parsedLink) \<longrightarrow>
        (let st' = onResponse tp dec now requestURL status headers doc st0 in
         if 200 \<le> status \<and> status < 400
         then link \<in> valid st' \<and> map_of (broken st') link = None
         else link \<notin> valid st' \<and> map_of (broken st') link = Some status)
        \<and> (let st' = onError (Some requestURL) status st0 in
            link \<notin> valid st' \<and> map_of (broken st') link = Some status))"
proof (intro conjI allI impI)
  have "crawl_inv (fst (run_events tp dec now parsedRoot patterns events))"
    by (rule crawl_inv_run)
  then show "let st = fst (run_events tp dec now parsedRoot patterns events) in
      valid st \<inter> dom (map_of (broken st)) = {}"
    by (auto simp: crawl_inv_def Let_def)
next
  fix r assume "Crawl tp dec now c opts = Inr r"
  from Crawl_Inr [OF this] obtain parsedRoot' where
    r: "r = assemble (ExcludePatterns opts)
                (fst (run_events tp dec now parsedRoot' (ExcludePatterns opts) (dispatched c)))"
    by blast
  let ?st = "fst (run_events tp dec now parsedRoot' (ExcludePatterns opts) (dispatched c))"
  have i: "crawl_inv ?st" by (rule crawl_inv_run)
  have "u \<in> set (ValidURLs r) \<Longrightarrow> BrokenLinks r u = None" for u
    using i by (simp add: r ValidURLs_assemble BrokenLinks_assemble crawl_inv_def)
  then show "set (ValidURLs r) \<inter> dom (BrokenLinks r) = {}" by auto
next
  fix link parsedLink assume "normalizeURL requestURL = Some (link, parsedLink)"
  then show "let st' = onResponse tp dec now requestURL status headers doc st0 in
         if 200 \<le> status \<and> status < 400
         then link \<in> valid st' \<and> map_of (broken st') link = None
         else link \<notin> valid st' \<and> map_of (broken st') link = Some status"
    by (rule onResponse_status)
next
  fix link parsedLink assume "normalizeURL requestURL = Some (link, parsedLink)"
  then show "let st' = onError (Some requestURL) status st0 in
            link \<notin> valid st' \<and> map_of (broken st') link = Some status"
    by (rule onError_status)
qed


theorem valid_broken_exclusive_witness:
  "''https://example.com/a'' \<notin> valid
      (onResponse (\<lambda>layout v. None) (\<lambda>raw. None) \<lparr>instant = 0, location = UTC\<rparr>
         ''https://example.com/a/'' 404 None None
         (init_state\<lparr>valid := {''https://example.com/a''}\<rparr>))
   \<and> map_of (broken
      (onResponse (\<lambda>layout v. None) (\<lambda>raw. None) \<lparr>instant = 0, location = UTC\<rparr>
         ''https://example.com/a/'' 404 None None
         (init_state\<lparr>valid := {''https://example.com/a''}\<rparr>))) ''https://example.com/a'' = Some 404
   \<and> (case Crawl (\<lambda>layout v. None) (\<lambda>raw. None) \<lparr>instant = 0, location = UTC\<rparr>
          \<lparr>Limit = (\<lambda>n. None), Visit = (\<lambda>u. None),
           dispatched = [Response ''https://example.com/'' 200 None None,
                         Response ''https://example.com/a'' 200 None None,
                         Failure (Some ''https://example.com/a'') 0]\<rparr>
          \<lparr>RootURL = ''example.com'', MaxDepth = 0, Threads = 0, UserAgent = [],
           ExcludePatterns = [], RequestTimeout = 0\<rparr> of
         Inl err \<Rightarrow> False
       | Inr r \<Rightarrow>
           ValidURLs r = [''https://example.com/'']
           \<and> BrokenLinks r ''https://example.com/a'' = Some 0
           \<and> set (ValidURLs r) \<inter> dom (BrokenLinks r) = {})"
proof -
  let ?tp = "\<lambda>(layout::string) (v::string). (None :: Time option)"
  let ?dec = "\<lambda>raw::string. (None :: json option)"
  let ?now = "\<lparr>instant = 0, location = UTC\<rparr>"
  let ?c = "\<lparr>Limit = (\<lambda>n. None), Visit = (\<lambda>u. None),
           dispatched = [Response ''https://example.com/'' 200 None None,
                         Response ''https://example.com/a'' 200 None None,
                         Failure (Some ''https://example.com/a'') 0]\<rparr>"
  let ?opts = "\<lparr>RootURL = ''example.com'', MaxDepth = 0, Threads = 0, UserAgent = [],
           ExcludePatterns = [], RequestTimeout = 0\<rparr>"
  let ?st0 = "init_state\<lparr>valid := {''https://example.com/a''}\<rparr>"
  note T = valid_broken_exclusive [of ?tp ?dec ?now empty_URL "[]" "[]" ?c ?opts
      "''https://example.com/a/''" 404 None None ?st0]
  have h: "normalizeURL ''https://example.com/a/''
             = Some (''https://example.com/a'', snd (the (normalizeURL ''https://example.com/a/'')))"
    by code_simp
  have c: "(case Crawl ?tp ?dec ?now ?c ?opts of
         Inl err \<Rightarrow> False
       | Inr r \<Rightarrow> ValidURLs r = [''https://example.com/'']
           \<and> BrokenLinks r ''https://example.com/a'' = Some 0)"
    by code_simp
  then obtain r where r: "Crawl ?tp ?dec ?now ?c ?opts = Inr r"
    by (cases "Crawl ?tp ?dec ?now ?c ?opts") auto
  from T r have d: "set (ValidURLs r) \<inter> dom (BrokenLinks r) = {}" by blast
  from T h have
    "(let st' = onResponse ?tp ?dec ?now ''https://example.com/a/'' 404 None None ?st0 in
         if 200 \<le> (404::int) \<and> (404::int) < 400
         then ''https://example.com/a'' \<in> valid st' \<and> map_of (broken st') ''https://example.com/a'' = None
         else ''https://example.com/a'' \<notin> valid st' \<and> map_of (broken st') ''https://example.com/a'' = Some 404)"
    by blast
  then have e: "''https://example.com/a'' \<notin> valid
      (onResponse ?tp ?dec ?now ''https://example.com/a/'' 404 None None ?st0)
     \<and> map_of (broken (onResponse ?tp ?dec ?now ''https://example.com/a/'' 404 None None ?st0))
          ''https://example.com/a'' = Some 404"
    by (simp add: Let_def)
  from c d e r show ?thesis by simp
qed


section \<open>Exclusion patterns at result assembly\<close>




section \<open>Errors of the crawl\<close>









section \<open>Links to other hosts\<close>














section \<open>Normalization twice, and the canonical data of a crawl\<close>


text \<open>
  C7. Normalization is meant to be idempotent, but \<open>normalizeURL\<close> is not: on a path
  made of two or more slashes \<^verbatim>\<open>strings.TrimRight\<close> leaves the empty path, which prints as
  no path at all, and normalizing the result again adds the root slash. The same holds
  for the copy of the function in package canonical.
\<close>

theorem normalizeURL_not_idempotent:
  "map_option fst (normalizeURL ''https://x//'') = Some ''https://x''
   \<and> map_option fst (normalizeURL ''https://x'') = Some ''https://x/''
   \<and> canonical_normalizeURL ''https://x//'' = Some ''https://x''
   \<and> canonical_normalizeURL ''https://x'' = Some ''https://x/''"
  by code_simp

lemma Find_attr_eq_without_links:
  "tg \<noteq> ''link'' \<Longrightarrow>
     Find_attr_eq (filter (\<lambda>e. elem_tag e \<noteq> ''link'') doc) tg name v = Find_attr_eq doc tg name v"
  unfolding Find_attr_eq_def filter_filter by (rule filter_cong) auto

lemma GetLastModified_without_links:
  "GetLastModified tp dec header (map_option (filter (\<lambda>e. elem_tag e \<noteq> ''link'')) doc) now
     = GetLastModified tp dec header doc now"
proof (cases doc)
  case None
  then show ?thesis by simp
next
  case (Some d)
  have j: "fromJSONLD tp dec (filter (\<lambda>e. elem_tag e \<noteq> ''link'') d) = fromJSONLD tp dec d"
    by (simp add: fromJSONLD_def Find_attr_eq_without_links)
  have "meta_time tp (filter (\<lambda>e. elem_tag e \<noteq> ''link'') d) p = meta_time tp d p" for p
    by (simp add: meta_time_def Find_attr_eq_without_links)
  then have loop: "fromMetaTags_loop tp (filter (\<lambda>e. elem_tag e \<noteq> ''link'') d) sels
               = fromMetaTags_loop tp d sels" for sels
    by (induction sels) (simp_all split: option.split)
  have m: "fromMetaTags tp (filter (\<lambda>e. elem_tag e \<noteq> ''link'') d) = fromMetaTags tp d"
    unfolding fromMetaTags_def by (rule loop)
  show ?thesis unfolding Some GetLastModified_def option.map option.case j m ..
qed

text \<open>
  C1. \<open>Crawl\<close> does not run the canonical extractor: the response callback, the only
  code of \<open>Crawl\<close> that reads the page, leaves the same state whether the document has
  \<^verbatim>\<open>link\<close> elements or not, and \<open>Result\<close> has no field for canonical data. On a page
  with two canonical tags, where \<open>Extract\<close> counts two, the callback does what it does
  on the empty document.
\<close>

theorem Crawl_ignores_canonical_tags:
  "TagCount (Extract ''https://example.com/''
      (Some [\<lparr>elem_tag = ''link'', elem_attrs = [(''rel'', ''canonical''), (''href'', ''/a'')], elem_text = []\<rparr>,
             \<lparr>elem_tag = ''link'', elem_attrs = [(''rel'', ''canonical''), (''href'', ''/b'')], elem_text = []\<rparr>])) = 2
   \<and> onResponse tp dec now ''https://example.com/'' 200 None
      (Some [\<lparr>elem_tag = ''link'', elem_attrs = [(''rel'', ''canonical''), (''href'', ''/a'')], elem_text = []\<rparr>,
             \<lparr>elem_tag = ''link'', elem_attrs = [(''rel'', ''canonical''), (''href'', ''/b'')], elem_text = []\<rparr>])
      st
     = onResponse tp dec now ''https://example.com/'' 200 None (Some []) st"
proof -
  let ?doc = "[\<lparr>elem_tag = ''link'', elem_attrs = [(''rel'', ''canonical''), (''href'', ''/a'')], elem_text = []\<rparr>,
             \<lparr>elem_tag = ''link'', elem_attrs = [(''rel'', ''canonical''), (''href'', ''/b'')], elem_text = []\<rparr>]"
  have 1: "TagCount (Extract ''https://example.com/'' (Some ?doc)) = 2" by code_simp
  have "GetLastModified tp dec None (map_option (filter (\<lambda>e. elem_tag e \<noteq> ''link'')) (Some ?doc)) now
          = GetLastModified tp dec None (Some ?doc) now"
    by (rule GetLastModified_without_links)
  then have g: "GetLastModified tp dec None (Some ?doc) now = GetLastModified tp dec None (Some []) now"
    by simp
  have 2: "onResponse tp dec now ''https://example.com/'' 200 None (Some ?doc) st
     = onResponse tp dec now ''https://example.com/'' 200 None (Some []) st"
    unfolding onResponse_def g ..
  from 1 2 show ?thesis by simp
qed


section \<open>Priority of the last-modified tiers\<close>







section \<open>The canonical extractor\<close>






end
